theory Spec2Isabelle
  imports Main "HOL-Library.Word" "HOL-Library.Sublist"
begin

section \<open>Strings and task inputs\<close>

text \<open>
  A JavaScript string is a sequence of 16-bit code units. Literals of the source are
  ASCII and are embedded with \<open>lit\<close>. An optional string (\<open>string | undefined\<close>) is a
  \<open>jsstring option\<close>; it is falsy when it is \<open>undefined\<close> or empty.
\<close>

type_synonym jschar = "16 word"
type_synonym jsstring = "jschar list"

definition lit :: "string \<Rightarrow> jsstring" where
  "lit s = map of_char s"

definition nl :: jsstring where
  "nl = [0x0A]"

definition truthy :: "jsstring option \<Rightarrow> bool" where
  "truthy v = (case v of None \<Rightarrow> False | Some s \<Rightarrow> s \<noteq> [])"

text \<open>\<open>v || d\<close> on an optional string.\<close>

definition or_else :: "jsstring option \<Rightarrow> jsstring \<Rightarrow> jsstring" where
  "or_else v d = (case v of None \<Rightarrow> d | Some s \<Rightarrow> if s = [] then d else s)"

text \<open>An optional string inside a template literal: \<open>undefined\<close> prints as such.\<close>

definition interpolate :: "jsstring option \<Rightarrow> jsstring" where
  "interpolate v = (case v of None \<Rightarrow> lit ''undefined'' | Some s \<Rightarrow> s)"

record TaskInputs =
  sourceDirectory :: jsstring
  outputDirectory :: jsstring
  projectName :: jsstring
  projectVersion :: "jsstring option"
  sourceFilePattern :: jsstring
  useCustomDoxyFile :: bool
  customDoxyFilePath :: "jsstring option"

section \<open>The synthesized configuration (\<open>generateAutoDoxyfile\<close>)\<close>

text \<open>
  The template literal of \<open>generateAutoDoxyfile\<close>, cut at its line ends and at its
  substitutions; the configuration text is the concatenation of the pieces.
\<close>

definition doxyfile_parts :: "TaskInputs \<Rightarrow> jsstring list" where
  \<open>doxyfile_parts inputs =
    [ lit ''# Auto-generated Doxygen configuration file'', nl,
      lit ''# Generated by Azure DevOps Doc via Doxygen task'', nl,
      nl,
      lit ''# Project information'', nl,
      lit ''PROJECT_NAME           = "'', projectName inputs, lit ''"'', nl,
      lit ''PROJECT_NUMBER         = "'', or_else (projectVersion inputs) (lit ''1.0''), lit ''"'', nl,
      lit ''PROJECT_BRIEF          = "Documentation for '', projectName inputs, lit ''"'', nl,
      nl,
      lit ''# Input settings'', nl,
      lit ''INPUT                  = '', sourceDirectory inputs, nl,
      lit ''RECURSIVE              = YES'', nl,
      lit ''FILE_PATTERNS          = '', sourceFilePattern inputs, nl,
      nl,
      lit ''# Output settings'', nl,
      lit ''OUTPUT_DIRECTORY       = '', outputDirectory inputs, nl,
      lit ''GENERATE_HTML          = YES'', nl,
      lit ''GENERATE_LATEX         = NO'', nl,
      lit ''HTML_OUTPUT            = html'', nl,
      nl,
      lit ''# Documentation extraction settings'', nl,
      lit ''EXTRACT_ALL            = YES'', nl,
      lit ''EXTRACT_PRIVATE        = YES'', nl,
      lit ''EXTRACT_STATIC         = YES'', nl,
      lit ''EXTRACT_LOCAL_CLASSES  = YES'', nl,
      nl,
      lit ''# Source browsing'', nl,
      lit ''SOURCE_BROWSER         = YES'', nl,
      lit ''INLINE_SOURCES         = YES'', nl,
      nl,
      lit ''# Preprocessing'', nl,
      lit ''ENABLE_PREPROCESSING   = YES'', nl,
      lit ''MACRO_EXPANSION        = YES'', nl,
      lit ''EXPAND_ONLY_PREDEF     = NO'', nl,
      nl,
      lit ''# Dot tool (for diagrams)'', nl,
      lit ''HAVE_DOT               = NO'', nl,
      lit ''CLASS_DIAGRAMS         = YES'', nl,
      nl,
      lit ''# Other settings'', nl,
      lit ''GENERATE_TREEVIEW      = YES'', nl,
      lit ''DISABLE_INDEX          = NO'', nl,
      lit ''FULL_SIDEBAR           = NO'', nl,
      lit ''HTML_COLORSTYLE_HUE    = 220'', nl,
      lit ''HTML_COLORSTYLE_SAT    = 100'', nl,
      lit ''HTML_COLORSTYLE_GAMMA  = 80'', nl,
      nl,
      lit ''# Include subdirectories'', nl,
      lit ''RECURSIVE              = YES'', nl,
      nl,
      lit ''# Optimize for different programming languages'', nl,
      lit ''OPTIMIZE_OUTPUT_FOR_C  = YES'', nl,
      lit ''OPTIMIZE_OUTPUT_JAVA   = YES'', nl,
      nl,
      lit ''# Include documentation for undocumented members'', nl,
      lit ''EXTRACT_ALL            = YES'', nl ]\<close>

definition generateAutoDoxyfile :: "TaskInputs \<Rightarrow> jsstring" where
  "generateAutoDoxyfile inputs = concat (doxyfile_parts inputs)"

section \<open>The task's environment\<close>

text \<open>
  The task reaches the outside through the pipeline host (\<open>tl\<close>), the file system
  (\<open>fs\<close>), subprocesses (\<open>exec\<close>), the console and the working directory of the
  process. The state records what the task did to them; a \<open>World\<close> says how each call
  ends, as a function of the state in which the call is made and of its arguments, so
  that the theorems hold for every behaviour of the environment.

  A thrown value is identified by the text that \<open>${error}\<close> prints for it.
\<close>

datatype exn = Exn (toString: jsstring)

datatype TaskResult = Succeeded | Failed

datatype level = Log | Warn | Err

text \<open>Calls that leave the process: the file system, subprocesses, the host's artifact upload.\<close>

datatype effect =
    Exec jsstring
  | PathExists jsstring
  | EnsureDir jsstring
  | ReadFile jsstring
  | WriteFile jsstring jsstring
  | Remove jsstring
  | Chdir jsstring
  | UploadArtifact jsstring jsstring jsstring

text \<open>
  The state: the working directory that \<open>process.cwd()\<close> returns, the
  \<open>tl.setResult\<close> calls, the console lines and the other calls, each in order.
\<close>

record State =
  cwd :: jsstring
  results :: "(TaskResult \<times> jsstring) list"
  console :: "(level \<times> jsstring list) list"
  effects :: "effect list"

text \<open>
  How a subprocess started by \<open>exec\<close> ends: the promise of \<open>execAsync\<close> resolves
  with the two output streams when the exit code is zero, and rejects when the exit code
  is not zero or the process cannot be spawned.
\<close>

datatype proc_outcome =
    ExitZero jsstring jsstring
  | ExitNonZero exn
  | SpawnError exn

text \<open>
  The environment: the outcome of every call that can fail, and the library functions
  \<open>tl.loc\<close>, \<open>path.resolve\<close> (given the working directory) and \<open>path.join\<close>, which are
  not part of the repository and are left open.
\<close>

record World =
  exec_outcome :: "State \<Rightarrow> jsstring \<Rightarrow> proc_outcome"
  pathExists_outcome :: "State \<Rightarrow> jsstring \<Rightarrow> exn + bool"
  ensureDir_outcome :: "State \<Rightarrow> jsstring \<Rightarrow> exn option"
  readFile_outcome :: "State \<Rightarrow> jsstring \<Rightarrow> exn + jsstring"
  writeFile_outcome :: "State \<Rightarrow> jsstring \<Rightarrow> jsstring \<Rightarrow> exn option"
  remove_outcome :: "State \<Rightarrow> jsstring \<Rightarrow> exn option"
  chdir_outcome :: "State \<Rightarrow> jsstring \<Rightarrow> exn option"
  uploadArtifact_outcome :: "State \<Rightarrow> jsstring \<Rightarrow> jsstring \<Rightarrow> jsstring \<Rightarrow> exn option"
  loc :: "jsstring \<Rightarrow> jsstring list \<Rightarrow> jsstring"
  path_resolve :: "jsstring \<Rightarrow> jsstring list \<Rightarrow> jsstring"
  path_join :: "jsstring list \<Rightarrow> jsstring"

section \<open>Computations that may throw\<close>

datatype 'a completion = Normal 'a | Throw exn

type_synonym 'a io = "State \<Rightarrow> 'a completion \<times> State"

definition ret :: "'a \<Rightarrow> 'a io" where
  "ret x s = (Normal x, s)"

definition throw :: "exn \<Rightarrow> 'a io" where
  "throw e s = (Throw e, s)"

definition bind :: "'a io \<Rightarrow> ('a \<Rightarrow> 'b io) \<Rightarrow> 'b io" where
  "bind m f s = (case m s of (Normal x, s') \<Rightarrow> f x s' | (Throw e, s') \<Rightarrow> (Throw e, s'))"

definition try_catch :: "'a io \<Rightarrow> (exn \<Rightarrow> 'a io) \<Rightarrow> 'a io" where
  "try_catch m h s = (case m s of (Normal x, s') \<Rightarrow> (Normal x, s') | (Throw e, s') \<Rightarrow> h e s')"

definition settle :: "exn option \<Rightarrow> State \<Rightarrow> unit completion \<times> State" where
  "settle r s = (case r of None \<Rightarrow> (Normal (), s) | Some e \<Rightarrow> (Throw e, s))"

definition call :: "effect \<Rightarrow> State \<Rightarrow> State" where
  "call c s = s\<lparr>effects := effects s @ [c]\<rparr>"

subsection \<open>Primitives\<close>

text \<open>
  The console and \<open>tl.setResult\<close> do not throw. Every other call is recorded, whether
  it succeeds or throws. \<open>process.chdir(d)\<close> makes \<open>d\<close> the working directory when it
  succeeds and leaves the working directory alone when it throws.
\<close>

definition console_log :: "jsstring list \<Rightarrow> unit io" where
  "console_log args s = (Normal (), s\<lparr>console := console s @ [(Log, args)]\<rparr>)"

definition console_warn :: "jsstring list \<Rightarrow> unit io" where
  "console_warn args s = (Normal (), s\<lparr>console := console s @ [(Warn, args)]\<rparr>)"

definition console_error :: "jsstring list \<Rightarrow> unit io" where
  "console_error args s = (Normal (), s\<lparr>console := console s @ [(Err, args)]\<rparr>)"

definition setResult :: "TaskResult \<Rightarrow> jsstring \<Rightarrow> unit io" where
  "setResult r message s = (Normal (), s\<lparr>results := results s @ [(r, message)]\<rparr>)"

definition process_cwd :: "jsstring io" where
  "process_cwd s = (Normal (cwd s), s)"

definition process_chdir :: "World \<Rightarrow> jsstring \<Rightarrow> unit io" where
  "process_chdir w d s =
     (case chdir_outcome w s d of
        None \<Rightarrow> (Normal (), (call (Chdir d) s)\<lparr>cwd := d\<rparr>)
      | Some e \<Rightarrow> (Throw e, call (Chdir d) s))"

definition execAsync :: "World \<Rightarrow> jsstring \<Rightarrow> (jsstring \<times> jsstring) io" where
  "execAsync w cmd s =
     (case exec_outcome w s cmd of
        ExitZero out err \<Rightarrow> (Normal (out, err), call (Exec cmd) s)
      | ExitNonZero e \<Rightarrow> (Throw e, call (Exec cmd) s)
      | SpawnError e \<Rightarrow> (Throw e, call (Exec cmd) s))"

definition fs_pathExists :: "World \<Rightarrow> jsstring \<Rightarrow> bool io" where
  "fs_pathExists w p s =
     (case pathExists_outcome w s p of
        Inr b \<Rightarrow> (Normal b, call (PathExists p) s)
      | Inl e \<Rightarrow> (Throw e, call (PathExists p) s))"

definition fs_ensureDir :: "World \<Rightarrow> jsstring \<Rightarrow> unit io" where
  "fs_ensureDir w p s = settle (ensureDir_outcome w s p) (call (EnsureDir p) s)"

definition fs_readFile :: "World \<Rightarrow> jsstring \<Rightarrow> jsstring io" where
  "fs_readFile w p s =
     (case readFile_outcome w s p of
        Inr text \<Rightarrow> (Normal text, call (ReadFile p) s)
      | Inl e \<Rightarrow> (Throw e, call (ReadFile p) s))"

definition fs_writeFile :: "World \<Rightarrow> jsstring \<Rightarrow> jsstring \<Rightarrow> unit io" where
  "fs_writeFile w p text s = settle (writeFile_outcome w s p text) (call (WriteFile p text) s)"

definition fs_remove :: "World \<Rightarrow> jsstring \<Rightarrow> unit io" where
  "fs_remove w p s = settle (remove_outcome w s p) (call (Remove p) s)"

definition uploadArtifact :: "World \<Rightarrow> jsstring \<Rightarrow> jsstring \<Rightarrow> jsstring \<Rightarrow> unit io" where
  "uploadArtifact w containerFolder p name s =
     settle (uploadArtifact_outcome w s containerFolder p name)
       (call (UploadArtifact containerFolder p name) s)"

definition resolve :: "World \<Rightarrow> jsstring list \<Rightarrow> jsstring io" where
  "resolve w segments s = (Normal (path_resolve w (cwd s) segments), s)"

section \<open>The regular expression of the custom-mode patch\<close>

text \<open>
  The custom mode patches the configuration text with
  \<open>configContent.replace(/^OUTPUT_DIRECTORY\s*=.*$/m, `OUTPUT_DIRECTORY = ${outputDirectory}`)\<close>.
  The pattern has no \<open>g\<close>, \<open>u\<close> or \<open>s\<close> flag: it works on code units, only its
  first match is replaced, \<open>.\<close> matches everything but a line terminator, and under
  \<open>m\<close> the assertions \<open>^\<close> and \<open>$\<close> hold at the ends of the input and next to a line
  terminator. \<open>\s\<close> is ECMAScript's white space together with its line terminators.
\<close>

definition isLineTerminator :: "jschar \<Rightarrow> bool" where
  "isLineTerminator c = (c = 0x0A \<or> c = 0x0D \<or> c = 0x2028 \<or> c = 0x2029)"

definition isWhiteSpace :: "jschar \<Rightarrow> bool" where
  "isWhiteSpace c =
     (c = 0x09 \<or> c = 0x0B \<or> c = 0x0C \<or> c = 0x20 \<or> c = 0xA0 \<or> c = 0x1680 \<or>
      (0x2000 \<le> c \<and> c \<le> 0x200A) \<or> c = 0x202F \<or> c = 0x205F \<or> c = 0x3000 \<or>
      c = 0xFEFF)"

definition isSpace :: "jschar \<Rightarrow> bool" where
  "isSpace c = (isWhiteSpace c \<or> isLineTerminator c)"

definition isDot :: "jschar \<Rightarrow> bool" where
  "isDot c = (\<not> isLineTerminator c)"

text \<open>
  The constructs the pattern uses, and a backtracking matcher for them in the style of
  the ECMAScript specification: a matcher takes the continuation that matches the rest
  of the pattern; a greedy star over a character class tries the longest run first and
  then gives characters back. A position is the code unit before it (if any) and the
  input from it on.
\<close>

datatype regex =
    LineStart
  | LineEnd
  | Chars jsstring
  | Star "jschar \<Rightarrow> bool"
  | Seq regex regex

type_synonym position = "jschar option \<times> jsstring"

fun advance :: "nat \<Rightarrow> position \<Rightarrow> position" where
  "advance 0 p = p"
| "advance (Suc n) (prev, []) = (prev, [])"
| "advance (Suc n) (prev, c # cs) = advance n (Some c, cs)"

definition at_line_start :: "position \<Rightarrow> bool" where
  "at_line_start p = (case fst p of None \<Rightarrow> True | Some c \<Rightarrow> isLineTerminator c)"

definition at_line_end :: "position \<Rightarrow> bool" where
  "at_line_end p = (case snd p of [] \<Rightarrow> True | c # _ \<Rightarrow> isLineTerminator c)"

fun greedy :: "(position \<Rightarrow> position option) \<Rightarrow> nat \<Rightarrow> position \<Rightarrow> position option" where
  "greedy k 0 p = k p"
| "greedy k (Suc n) p =
     (case k (advance (Suc n) p) of Some r \<Rightarrow> Some r | None \<Rightarrow> greedy k n p)"

primrec rmatch :: "regex \<Rightarrow> (position \<Rightarrow> position option) \<Rightarrow> position \<Rightarrow> position option" where
  "rmatch LineStart k p = (if at_line_start p then k p else None)"
| "rmatch LineEnd k p = (if at_line_end p then k p else None)"
| "rmatch (Chars cs) k p = (if prefix cs (snd p) then k (advance (length cs) p) else None)"
| "rmatch (Star C) k p = greedy k (length (takeWhile C (snd p))) p"
| "rmatch (Seq a b) k p = rmatch a (rmatch b k) p"

text \<open>
  \<open>regexp_exec\<close> looks for the first position (from the left, the end of the input
  included) at which the pattern matches, and yields the text before the match, the
  match and the text after it.
\<close>

fun regexp_exec :: "regex \<Rightarrow> jsstring \<Rightarrow> position \<Rightarrow> (jsstring \<times> jsstring \<times> jsstring) option" where
  "regexp_exec re pre (prev, rest) =
     (case rmatch re Some (prev, rest) of
        Some (_, post) \<Rightarrow> Some (pre, take (length rest - length post) rest, post)
      | None \<Rightarrow>
          (case rest of
             [] \<Rightarrow> None
           | c # cs \<Rightarrow> regexp_exec re (pre @ [c]) (Some c, cs)))"

text \<open>
  The replacement is a string, so \<open>replace\<close> expands its patterns: \<open>$$\<close> is a
  dollar sign, \<open>$&\<close> the match, \<open>$`\<close> the text before the match and \<open>$'\<close> the text
  after it. The pattern has no capture group, so \<open>$1\<close>, \<open>$<name>\<close> and every other
  \<open>$\<close> stand for themselves.
\<close>

fun get_substitution :: "jsstring \<Rightarrow> jsstring \<Rightarrow> jsstring \<Rightarrow> jsstring \<Rightarrow> jsstring" where
  "get_substitution matched pre post (c # d # cs) =
     (if c = 0x24 \<and> d = 0x24 then 0x24 # get_substitution matched pre post cs
      else if c = 0x24 \<and> d = 0x26 then matched @ get_substitution matched pre post cs
      else if c = 0x24 \<and> d = 0x60 then pre @ get_substitution matched pre post cs
      else if c = 0x24 \<and> d = 0x27 then post @ get_substitution matched pre post cs
      else c # get_substitution matched pre post (d # cs))"
| "get_substitution matched pre post cs = cs"

definition string_replace :: "regex \<Rightarrow> jsstring \<Rightarrow> jsstring \<Rightarrow> jsstring" where
  "string_replace re replacement text =
     (case regexp_exec re [] (None, text) of
        None \<Rightarrow> text
      | Some (pre, matched, post) \<Rightarrow>
          pre @ get_substitution matched pre post replacement @ post)"

definition output_directory_re :: regex where
  "output_directory_re =
     Seq LineStart (Seq (Chars (lit ''OUTPUT_DIRECTORY''))
       (Seq (Star isSpace) (Seq (Chars (lit ''=''))
         (Seq (Star isDot) LineEnd))))"

definition patch_output_directory :: "jsstring \<Rightarrow> jsstring \<Rightarrow> jsstring" where
  "patch_output_directory out configContent =
     string_replace output_directory_re (lit ''OUTPUT_DIRECTORY = '' @ out) configContent"

section \<open>The task (\<open>DoxygenTask\<close>)\<close>

text \<open>
  The condition \<open>this.inputs.useCustomDoxyFile && this.inputs.customDoxyFilePath\<close>: when
  it is truthy, its value is the (non-empty) custom path.
\<close>

definition custom_path :: "TaskInputs \<Rightarrow> jsstring option" where
  "custom_path inputs =
     (if useCustomDoxyFile inputs \<and> truthy (customDoxyFilePath inputs)
      then customDoxyFilePath inputs else None)"

text \<open>\<open>checkDoxygenInstallation\<close> (lines 38-47).\<close>

definition checkDoxygenInstallation :: "World \<Rightarrow> bool io" where
  "checkDoxygenInstallation w =
     try_catch
       (bind (execAsync w (lit ''doxygen --version'')) (\<lambda>_.
        bind (console_log [lit ''Doxygen found and available'']) (\<lambda>_.
        ret True)))
       (\<lambda>error.
        bind (console_error [lit ''Doxygen not found in PATH'']) (\<lambda>_.
        ret False))"

text \<open>
  \<open>validateInputs\<close> (lines 49-74). The check of the custom file (lines 58-64) is
  \<open>check_custom_file\<close>, which yields whether \<open>validateInputs\<close> returned from it.
\<close>

definition check_custom_file :: "World \<Rightarrow> TaskInputs \<Rightarrow> bool io" where
  "check_custom_file w inputs =
     (case custom_path inputs of
        Some p \<Rightarrow>
          bind (resolve w [sourceDirectory inputs, p]) (\<lambda>configPath.
          bind (fs_pathExists w configPath) (\<lambda>found.
          if \<not> found then
            bind (setResult Failed (loc w (lit ''ConfigFileNotFound'') [configPath])) (\<lambda>_.
            ret True)
          else ret False))
      | None \<Rightarrow> ret False)"

definition validateInputs :: "World \<Rightarrow> TaskInputs \<Rightarrow> unit io" where
  "validateInputs w inputs =
     bind (checkDoxygenInstallation w) (\<lambda>doxygenAvailable.
     if \<not> doxygenAvailable then
       setResult Failed (loc w (lit ''DoxygenNotFound'') [])
     else
       bind (check_custom_file w inputs) (\<lambda>returned.
       if returned then ret ()
       else if useCustomDoxyFile inputs \<and> \<not> truthy (customDoxyFilePath inputs) then
         setResult Failed
           (lit ''Custom Doxyfile path is required when using custom configuration file option'')
       else fs_ensureDir w (outputDirectory inputs)))"

text \<open>
  \<open>generateDocumentation\<close> (lines 76-133). The choice of the configuration text
  (lines 91-106) is \<open>resolve_config\<close>.
\<close>

definition resolve_config :: "World \<Rightarrow> TaskInputs \<Rightarrow> jsstring io" where
  "resolve_config w inputs =
     (case custom_path inputs of
        Some p \<Rightarrow>
          bind (console_log [lit ''Using custom Doxyfile: '' @ p]) (\<lambda>_.
          bind (resolve w [p]) (\<lambda>configPath.
          bind (fs_readFile w configPath) (\<lambda>configContent.
          ret (patch_output_directory (outputDirectory inputs) configContent))))
      | None \<Rightarrow>
          bind (console_log [lit ''Generating automatic Doxygen configuration...'']) (\<lambda>_.
          ret (generateAutoDoxyfile inputs)))"

definition generateDocumentation :: "World \<Rightarrow> TaskInputs \<Rightarrow> unit io" where
  \<open>generateDocumentation w inputs =
     try_catch
       (bind (console_log [lit ''Generating documentation for project: '' @ projectName inputs]) (\<lambda>_.
        bind (console_log [lit ''Project version: '' @ interpolate (projectVersion inputs)]) (\<lambda>_.
        bind (console_log [lit ''Source directory: '' @ sourceDirectory inputs]) (\<lambda>_.
        bind (console_log [lit ''Output directory: '' @ outputDirectory inputs]) (\<lambda>_.
        bind (console_log [lit ''Source file pattern: '' @ sourceFilePattern inputs]) (\<lambda>_.
        bind process_cwd (\<lambda>originalCwd.
        bind (process_chdir w (sourceDirectory inputs)) (\<lambda>_.
        bind (resolve_config w inputs) (\<lambda>configContent.
        bind process_cwd (\<lambda>current.
        let tempConfigPath = path_join w [current, lit ''Doxyfile.tmp''] in
        bind (fs_writeFile w tempConfigPath configContent) (\<lambda>_.
        bind (execAsync w (lit ''doxygen "'' @ tempConfigPath @ lit ''"'')) (\<lambda>(stdout, stderr).
        bind (if stdout \<noteq> [] then console_log [lit ''Doxygen output:'', stdout] else ret ()) (\<lambda>_.
        bind (if stderr \<noteq> [] then console_warn [lit ''Doxygen warnings:'', stderr] else ret ()) (\<lambda>_.
        bind (fs_remove w tempConfigPath) (\<lambda>_.
        bind (process_chdir w originalCwd) (\<lambda>_.
        console_log [loc w (lit ''DocumentationGenerated'') [outputDirectory inputs]]))))))))))))))))
       (\<lambda>error.
        bind (setResult Failed (lit ''Failed to generate documentation: '' @ toString error)) (\<lambda>_.
        throw error))\<close>

text \<open>\<open>publishArtifacts\<close> (lines 194-210) and \<open>run\<close> (lines 212-227).\<close>

definition publishArtifacts :: "World \<Rightarrow> TaskInputs \<Rightarrow> unit io" where
  "publishArtifacts w inputs =
     try_catch
       (let artifactName = lit ''documentation'' in
        bind (console_log [loc w (lit ''PublishingArtifacts'') [artifactName]]) (\<lambda>_.
        bind (uploadArtifact w artifactName (outputDirectory inputs) artifactName) (\<lambda>_.
        console_log [lit ''Documentation artifacts published successfully as: '' @ artifactName])))
       (\<lambda>error. console_warn [lit ''Failed to publish artifacts: '' @ toString error])"

definition run :: "World \<Rightarrow> TaskInputs \<Rightarrow> unit io" where
  "run w inputs =
     try_catch
       (bind (console_log [lit ''Starting Doxygen documentation generation task...'']) (\<lambda>_.
        bind (validateInputs w inputs) (\<lambda>_.
        bind (generateDocumentation w inputs) (\<lambda>_.
        bind (publishArtifacts w inputs) (\<lambda>_.
        bind (console_log [lit ''Documentation generation task completed successfully'']) (\<lambda>_.
        setResult Succeeded (lit ''Documentation generated successfully'')))))))
       (\<lambda>error.
        bind (console_error [lit ''Task failed: '' @ toString error]) (\<lambda>_.
        setResult Failed (lit ''Task failed: '' @ toString error)))"

text \<open>
  For the proofs, the statements of \<open>generateDocumentation\<close> from the write of the
  temporary file on (lines 108-127) are named; \<open>generateDocumentation_unfold\<close> below
  shows that the function is built from them.
\<close>

definition invoke_generator :: "World \<Rightarrow> TaskInputs \<Rightarrow> jsstring \<Rightarrow> jsstring \<Rightarrow> unit io" where
  \<open>invoke_generator w inputs originalCwd configContent =
     bind process_cwd (\<lambda>current.
     let tempConfigPath = path_join w [current, lit ''Doxyfile.tmp''] in
     bind (fs_writeFile w tempConfigPath configContent) (\<lambda>_.
     bind (execAsync w (lit ''doxygen "'' @ tempConfigPath @ lit ''"'')) (\<lambda>(stdout, stderr).
     bind (if stdout \<noteq> [] then console_log [lit ''Doxygen output:'', stdout] else ret ()) (\<lambda>_.
     bind (if stderr \<noteq> [] then console_warn [lit ''Doxygen warnings:'', stderr] else ret ()) (\<lambda>_.
     bind (fs_remove w tempConfigPath) (\<lambda>_.
     bind (process_chdir w originalCwd) (\<lambda>_.
     console_log [loc w (lit ''DocumentationGenerated'') [outputDirectory inputs]])))))))\<close>

section \<open>Concrete environments\<close>

text \<open>
  The environment of the repository's unit tests: every call succeeds, \<open>tl.loc\<close> joins
  the key and its arguments, and the inputs are the tests' defaults. The other
  environments change one answer: the generator run fails, the generator is not
  installed, the host rejects the upload, or the output directory cannot be created.
\<close>

definition join_with :: "jsstring \<Rightarrow> jsstring list \<Rightarrow> jsstring" where
  "join_with sep xs = (case xs of [] \<Rightarrow> [] | y # ys \<Rightarrow> y @ concat (map (\<lambda>z. sep @ z) ys))"

definition test_world :: World where
  "test_world =
     \<lparr> exec_outcome = (\<lambda>s cmd. ExitZero (lit ''doxygen 1.9.1'') []),
       pathExists_outcome = (\<lambda>s p. Inr True),
       ensureDir_outcome = (\<lambda>s p. None),
       readFile_outcome = (\<lambda>s p. Inr (lit ''# Sample Doxyfile content\<newline>OUTPUT_DIRECTORY = /old/path'')),
       writeFile_outcome = (\<lambda>s p text. None),
       remove_outcome = (\<lambda>s p. None),
       chdir_outcome = (\<lambda>s d. None),
       uploadArtifact_outcome = (\<lambda>s c p n. None),
       loc = (\<lambda>key args. key @ lit '': '' @ join_with (lit '', '') args),
       path_resolve = (\<lambda>c segments. last (c # segments)),
       path_join = join_with (lit ''/'') \<rparr>"

definition test_inputs :: TaskInputs where
  "test_inputs =
     \<lparr> sourceDirectory = lit ''/test/source'',
       outputDirectory = lit ''/test/output'',
       projectName = lit ''Test Project'',
       projectVersion = Some (lit ''1.0.0''),
       sourceFilePattern = lit ''*.cpp *.h'',
       useCustomDoxyFile = False,
       customDoxyFilePath = Some (lit ''/test/custom/doxyfile'') \<rparr>"

definition start :: State where
  "start = \<lparr> cwd = lit ''/original'', results = [], console = [], effects = [] \<rparr>"

definition missing_path_inputs :: TaskInputs where
  "missing_path_inputs = test_inputs\<lparr>useCustomDoxyFile := True, customDoxyFilePath := None\<rparr>"

definition failing_generator :: World where
  "failing_generator =
     test_world\<lparr>exec_outcome := (\<lambda>s cmd.
       if cmd = lit ''doxygen --version'' then ExitZero (lit ''1.9.1'') []
       else ExitNonZero (Exn (lit ''Error: Doxygen failed'')))\<rparr>"

definition no_generator :: World where
  "no_generator =
     test_world\<lparr>exec_outcome := (\<lambda>s cmd. SpawnError (Exn (lit ''Error: Command not found'')))\<rparr>"

definition rejecting_host :: World where
  "rejecting_host =
     test_world\<lparr>uploadArtifact_outcome := (\<lambda>s c p n. Some (Exn (lit ''Error: Upload failed'')))\<rparr>"

definition unwritable_output :: World where
  "unwritable_output =
     test_world\<lparr>ensureDir_outcome := (\<lambda>s p. Some (Exn (lit ''Error: EACCES: permission denied'')))\<rparr>"

section \<open>Properties of the synthesized configuration\<close>

lemma sublist_concat_slice: "sublist (concat (take n (drop m xs))) (concat xs)"
proof -
  have "xs = take m xs @ take n (drop m xs) @ drop n (drop m xs)"
    by (simp only: append_take_drop_id)
  then have "concat xs = concat (take m xs) @ concat (take n (drop m xs)) @ concat (drop n (drop m xs))"
    by (metis concat_append)
  then show ?thesis
    by (simp only: sublist_appendI)
qed

lemma project_name_slice:
  \<open>concat (take 3 (drop 7 (doxyfile_parts i))) =
     lit ''PROJECT_NAME           = "'' @ projectName i @ lit ''"''\<close>
  by (simp add: doxyfile_parts_def)

lemma project_number_slice:
  \<open>concat (take 3 (drop 11 (doxyfile_parts i))) =
     lit ''PROJECT_NUMBER         = "'' @ or_else (projectVersion i) (lit ''1.0'') @ lit ''"''\<close>
  by (simp add: doxyfile_parts_def)

lemma input_slice:
  \<open>concat (take 2 (drop 22 (doxyfile_parts i))) =
     lit ''INPUT                  = '' @ sourceDirectory i\<close>
  by (simp add: doxyfile_parts_def)

lemma file_patterns_slice:
  \<open>concat (take 2 (drop 27 (doxyfile_parts i))) =
     lit ''FILE_PATTERNS          = '' @ sourceFilePattern i\<close>
  by (simp add: doxyfile_parts_def)

lemma output_directory_slice:
  \<open>concat (take 2 (drop 33 (doxyfile_parts i))) =
     lit ''OUTPUT_DIRECTORY       = '' @ outputDirectory i\<close>
  by (simp add: doxyfile_parts_def)

text \<open>
  C6. For every task configuration the synthesized configuration text contains,
  verbatim, the \<open>PROJECT_NAME\<close> directive with the project name, the
  \<open>PROJECT_NUMBER\<close> directive with the project version (\<open>1.0\<close> when the version is
  absent or empty), the \<open>FILE_PATTERNS\<close> directive with the source file pattern, the
  \<open>INPUT\<close> directive with the source directory and the \<open>OUTPUT_DIRECTORY\<close>
  directive with the output directory.
\<close>

theorem generateAutoDoxyfile_contains_inputs:
  \<open>sublist (lit ''PROJECT_NAME           = "'' @ projectName i @ lit ''"'')
       (generateAutoDoxyfile i) \<and>
   sublist (lit ''PROJECT_NUMBER         = "'' @
            (case projectVersion i of None \<Rightarrow> lit ''1.0''
             | Some v \<Rightarrow> if v = [] then lit ''1.0'' else v) @ lit ''"'')
       (generateAutoDoxyfile i) \<and>
   sublist (lit ''FILE_PATTERNS          = '' @ sourceFilePattern i) (generateAutoDoxyfile i) \<and>
   sublist (lit ''INPUT                  = '' @ sourceDirectory i) (generateAutoDoxyfile i) \<and>
   sublist (lit ''OUTPUT_DIRECTORY       = '' @ outputDirectory i) (generateAutoDoxyfile i)\<close>
proof -
  let ?ps = "doxyfile_parts i"
  have version: "(case projectVersion i of None \<Rightarrow> lit ''1.0''
      | Some v \<Rightarrow> if v = [] then lit ''1.0'' else v) = or_else (projectVersion i) (lit ''1.0'')"
    by (simp add: or_else_def)
  have "sublist (concat (take 3 (drop 7 ?ps))) (concat ?ps)"
    and "sublist (concat (take 3 (drop 11 ?ps))) (concat ?ps)"
    and "sublist (concat (take 2 (drop 27 ?ps))) (concat ?ps)"
    and "sublist (concat (take 2 (drop 22 ?ps))) (concat ?ps)"
    and "sublist (concat (take 2 (drop 33 ?ps))) (concat ?ps)"
    by (rule sublist_concat_slice)+
  then show ?thesis
    unfolding generateAutoDoxyfile_def version
      project_name_slice project_number_slice input_slice file_patterns_slice
      output_directory_slice
    by blast
qed

section \<open>Literals\<close>

lemma of_char_less_256: "(of_char c :: nat) < 256"
proof -
  have "(of_char c :: nat) mod 256 < 256"
    by (rule mod_less_divisor) simp
  then show ?thesis
    by (simp only: of_char_mod_256)
qed

lemma unat_of_char: "unat (of_char c :: 16 word) = of_char c"
proof -
  have eq: "(of_char c :: 16 word) = of_nat (of_char c)"
    by (simp only: of_nat_of_char)
  have "(of_char c :: nat) < 2 ^ LENGTH(16)"
    by (rule less_le_trans [OF of_char_less_256]) simp
  then have "unat (of_nat (of_char c) :: 16 word) = of_char c"
    by (simp only: unat_of_nat mod_less)
  then show ?thesis
    by (simp only: eq)
qed

lemma inj_of_char_word: "inj (of_char :: char \<Rightarrow> 16 word)"
proof (rule injI)
  fix c d :: char
  assume "(of_char c :: 16 word) = of_char d"
  then have "unat (of_char c :: 16 word) = unat (of_char d :: 16 word)"
    by (rule arg_cong)
  then show "c = d"
    by (simp only: unat_of_char of_char_eq_iff)
qed

lemma lit_Nil_iff: "lit s = [] \<longleftrightarrow> s = []"
  by (simp add: lit_def)

lemma lit_append: "lit a @ lit b = lit (a @ b)"
  by (simp add: lit_def)

lemma lit_append2: "lit a @ lit b @ r = lit (a @ b) @ r"
  by (simp add: lit_def)

lemma lit_eq_iff: "lit a = lit b \<longleftrightarrow> a = b"
  unfolding lit_def
  by (rule inj_map_eq_map [OF inj_of_char_word])

section \<open>Executing the primitives\<close>

lemma bind_iff:
  "bind m f s = (c, t) \<longleftrightarrow>
     (\<exists>e. m s = (Throw e, t) \<and> c = Throw e) \<or>
     (\<exists>x s'. m s = (Normal x, s') \<and> f x s' = (c, t))"
  by (auto simp: bind_def split: prod.splits completion.splits)

lemma try_catch_iff:
  "try_catch m h s = (c, t) \<longleftrightarrow>
     (\<exists>x. m s = (Normal x, t) \<and> c = Normal x) \<or>
     (\<exists>e s'. m s = (Throw e, s') \<and> h e s' = (c, t))"
  by (auto simp: try_catch_def split: prod.splits completion.splits)

lemma ret_iff: "ret x s = (c, t) \<longleftrightarrow> c = Normal x \<and> t = s"
  by (auto simp: ret_def)

lemma throw_iff: "throw e s = (c, t) \<longleftrightarrow> c = Throw e \<and> t = s"
  by (auto simp: throw_def)

lemma console_log_iff:
  "console_log a s = (c, t) \<longleftrightarrow> c = Normal () \<and> t = s\<lparr>console := console s @ [(Log, a)]\<rparr>"
  by (auto simp: console_log_def)

lemma console_warn_iff:
  "console_warn a s = (c, t) \<longleftrightarrow> c = Normal () \<and> t = s\<lparr>console := console s @ [(Warn, a)]\<rparr>"
  by (auto simp: console_warn_def)

lemma console_error_iff:
  "console_error a s = (c, t) \<longleftrightarrow> c = Normal () \<and> t = s\<lparr>console := console s @ [(Err, a)]\<rparr>"
  by (auto simp: console_error_def)

lemma setResult_iff:
  "setResult r m s = (c, t) \<longleftrightarrow> c = Normal () \<and> t = s\<lparr>results := results s @ [(r, m)]\<rparr>"
  by (auto simp: setResult_def)

lemma process_cwd_iff: "process_cwd s = (c, t) \<longleftrightarrow> c = Normal (cwd s) \<and> t = s"
  by (auto simp: process_cwd_def)

lemma resolve_iff:
  "resolve w segs s = (c, t) \<longleftrightarrow> c = Normal (path_resolve w (cwd s) segs) \<and> t = s"
  by (auto simp: resolve_def)

lemma process_chdir_iff:
  "process_chdir w d s = (c, t) \<longleftrightarrow>
     (chdir_outcome w s d = None \<and> c = Normal () \<and>
        t = s\<lparr>cwd := d, effects := effects s @ [Chdir d]\<rparr>) \<or>
     (\<exists>e. chdir_outcome w s d = Some e \<and> c = Throw e \<and>
        t = s\<lparr>effects := effects s @ [Chdir d]\<rparr>)"
  by (auto simp: process_chdir_def call_def split: option.splits)

lemma execAsync_iff:
  "execAsync w cmd s = (c, t) \<longleftrightarrow>
     t = s\<lparr>effects := effects s @ [Exec cmd]\<rparr> \<and>
     c = (case exec_outcome w s cmd of
            ExitZero out err \<Rightarrow> Normal (out, err)
          | ExitNonZero e \<Rightarrow> Throw e
          | SpawnError e \<Rightarrow> Throw e)"
  by (auto simp: execAsync_def call_def split: proc_outcome.splits)

lemma fs_pathExists_iff:
  "fs_pathExists w p s = (c, t) \<longleftrightarrow>
     t = s\<lparr>effects := effects s @ [PathExists p]\<rparr> \<and>
     c = (case pathExists_outcome w s p of Inr b \<Rightarrow> Normal b | Inl e \<Rightarrow> Throw e)"
  by (auto simp: fs_pathExists_def call_def split: sum.splits)

lemma fs_readFile_iff:
  "fs_readFile w p s = (c, t) \<longleftrightarrow>
     t = s\<lparr>effects := effects s @ [ReadFile p]\<rparr> \<and>
     c = (case readFile_outcome w s p of Inr text \<Rightarrow> Normal text | Inl e \<Rightarrow> Throw e)"
  by (auto simp: fs_readFile_def call_def split: sum.splits)

lemma fs_ensureDir_iff:
  "fs_ensureDir w p s = (c, t) \<longleftrightarrow>
     t = s\<lparr>effects := effects s @ [EnsureDir p]\<rparr> \<and>
     c = (case ensureDir_outcome w s p of None \<Rightarrow> Normal () | Some e \<Rightarrow> Throw e)"
  by (auto simp: fs_ensureDir_def settle_def call_def split: option.splits)

lemma fs_writeFile_iff:
  "fs_writeFile w p text s = (c, t) \<longleftrightarrow>
     t = s\<lparr>effects := effects s @ [WriteFile p text]\<rparr> \<and>
     c = (case writeFile_outcome w s p text of None \<Rightarrow> Normal () | Some e \<Rightarrow> Throw e)"
  by (auto simp: fs_writeFile_def settle_def call_def split: option.splits)

lemma fs_remove_iff:
  "fs_remove w p s = (c, t) \<longleftrightarrow>
     t = s\<lparr>effects := effects s @ [Remove p]\<rparr> \<and>
     c = (case remove_outcome w s p of None \<Rightarrow> Normal () | Some e \<Rightarrow> Throw e)"
  by (auto simp: fs_remove_def settle_def call_def split: option.splits)

lemma uploadArtifact_iff:
  "uploadArtifact w a p n s = (c, t) \<longleftrightarrow>
     t = s\<lparr>effects := effects s @ [UploadArtifact a p n]\<rparr> \<and>
     c = (case uploadArtifact_outcome w s a p n of None \<Rightarrow> Normal () | Some e \<Rightarrow> Throw e)"
  by (auto simp: uploadArtifact_def settle_def call_def split: option.splits)

lemmas exec_iffs = bind_iff try_catch_iff ret_iff throw_iff console_log_iff console_warn_iff
  console_error_iff setResult_iff process_cwd_iff resolve_iff process_chdir_iff execAsync_iff
  fs_pathExists_iff fs_readFile_iff fs_ensureDir_iff fs_writeFile_iff fs_remove_iff
  uploadArtifact_iff

section \<open>The generator probe\<close>

lemma checkDoxygenInstallation_result:
  "checkDoxygenInstallation w s = (c, t) \<Longrightarrow>
     c = Normal (case exec_outcome w s (lit ''doxygen --version'') of
                   ExitZero out err \<Rightarrow> True | ExitNonZero e \<Rightarrow> False | SpawnError e \<Rightarrow> False) \<and>
     results t = results s \<and> cwd t = cwd s \<and>
     effects t = effects s @ [Exec (lit ''doxygen --version'')]"
  unfolding checkDoxygenInstallation_def
  by (auto simp: exec_iffs split: proc_outcome.splits)

text \<open>
  Appending to a field of the state, written as an update by a function: the state
  occurs once on the right, so that the states of long runs stay small.
\<close>

lemma append_update:
  "s\<lparr>console := console s @ xs\<rparr> = console_update (\<lambda>c. c @ xs) s"
  "s\<lparr>results := results s @ ys\<rparr> = results_update (\<lambda>rs. rs @ ys) s"
  "s\<lparr>effects := effects s @ zs\<rparr> = effects_update (\<lambda>es. es @ zs) s"
  by (cases s; simp)+

lemmas prims = ret_def throw_def bind_def try_catch_def settle_def call_def console_log_def
  console_warn_def console_error_def setResult_def process_cwd_def process_chdir_def
  execAsync_def fs_pathExists_def fs_ensureDir_def fs_readFile_def fs_writeFile_def
  fs_remove_def uploadArtifact_def resolve_def

lemmas sym_prims = prims append_update

lemma generateDocumentation_unfold:
  \<open>generateDocumentation w inputs =
     try_catch
       (bind (console_log [lit ''Generating documentation for project: '' @ projectName inputs]) (\<lambda>_.
        bind (console_log [lit ''Project version: '' @ interpolate (projectVersion inputs)]) (\<lambda>_.
        bind (console_log [lit ''Source directory: '' @ sourceDirectory inputs]) (\<lambda>_.
        bind (console_log [lit ''Output directory: '' @ outputDirectory inputs]) (\<lambda>_.
        bind (console_log [lit ''Source file pattern: '' @ sourceFilePattern inputs]) (\<lambda>_.
        bind process_cwd (\<lambda>originalCwd.
        bind (process_chdir w (sourceDirectory inputs)) (\<lambda>_.
        bind (resolve_config w inputs) (invoke_generator w inputs originalCwd)))))))))
       (\<lambda>error.
        bind (setResult Failed (lit ''Failed to generate documentation: '' @ toString error)) (\<lambda>_.
        throw error))\<close>
  unfolding generateDocumentation_def invoke_generator_def by (rule refl)

lemma invoke_generator_frame:
  "invoke_generator w i orig content s = (c, t) \<Longrightarrow>
     results t = results s \<and> (c = Normal () \<longrightarrow> cwd t = orig) \<and>
     (\<exists>rest. effects t =
        effects s @ WriteFile (path_join w [cwd s, lit ''Doxyfile.tmp'']) content # rest \<and>
        (\<forall>p. ReadFile p \<notin> set rest))"
  unfolding invoke_generator_def
  by (auto simp: sym_prims Let_def
      split: option.splits sum.splits proc_outcome.splits if_splits)

lemma resolve_config_frame:
  "resolve_config w i s = (c, t) \<Longrightarrow> results t = results s \<and> cwd t = cwd s"
  unfolding resolve_config_def
  by (auto simp: sym_prims split: option.splits sum.splits)


lemma generateDocumentation_results:
  assumes "generateDocumentation w i s = (c, t)"
  shows "(c = Normal () \<and> results t = results s) \<or>
     (\<exists>e. c = Throw e \<and>
        results t = results s @ [(Failed, lit ''Failed to generate documentation: '' @ toString e)])"
  using assms unfolding generateDocumentation_unfold
  by (auto simp: exec_iffs dest!: resolve_config_frame invoke_generator_frame)

lemma generateDocumentation_cwd:
  assumes "generateDocumentation w i s = (Normal (), t)"
  shows "cwd t = cwd s"
  using assms unfolding generateDocumentation_unfold
  by (auto simp: exec_iffs dest!: resolve_config_frame invoke_generator_frame)


section \<open>Validation\<close>

lemma validateInputs_results:
  "validateInputs w i s = (c, t) \<Longrightarrow>
     results t = results s \<or> (c = Normal () \<and> (\<exists>m. results t = results s @ [(Failed, m)]))"
  unfolding validateInputs_def check_custom_file_def checkDoxygenInstallation_def
  by (auto simp: sym_prims split: option.splits sum.splits proc_outcome.splits if_splits)

lemma validateInputs_no_generator:
  assumes "fst (checkDoxygenInstallation w s) = Normal False"
  shows "fst (validateInputs w i s) = Normal () \<and>
     results (snd (validateInputs w i s)) =
       results s @ [(Failed, loc w (lit ''DoxygenNotFound'') [])] \<and>
     effects (snd (validateInputs w i s)) = effects s @ [Exec (lit ''doxygen --version'')]"
proof -
  obtain c t where probe: "checkDoxygenInstallation w s = (c, t)"
    by (cases "checkDoxygenInstallation w s")
  from assms probe have c: "c = Normal False"
    by simp
  from checkDoxygenInstallation_result [OF probe]
  have t: "results t = results s" "effects t = effects s @ [Exec (lit ''doxygen --version'')]"
    by simp_all
  show ?thesis
    using t by (simp add: validateInputs_def bind_def probe c setResult_def)
qed

lemma validateInputs_missing_path:
  assumes "useCustomDoxyFile i" and "\<not> truthy (customDoxyFilePath i)"
    and "fst (checkDoxygenInstallation w s) = Normal True"
  shows "fst (validateInputs w i s) = Normal () \<and>
     results (snd (validateInputs w i s)) =
       results s @ [(Failed,
         lit ''Custom Doxyfile path is required when using custom configuration file option'')] \<and>
     effects (snd (validateInputs w i s)) = effects s @ [Exec (lit ''doxygen --version'')]"
proof -
  obtain c t where probe: "checkDoxygenInstallation w s = (c, t)"
    by (cases "checkDoxygenInstallation w s")
  from assms(3) probe have c: "c = Normal True"
    by simp
  from checkDoxygenInstallation_result [OF probe]
  have t: "results t = results s" "effects t = effects s @ [Exec (lit ''doxygen --version'')]"
    by simp_all
  from assms(1,2) have no_path: "custom_path i = None"
    by (simp add: custom_path_def)
  show ?thesis
    using t assms(1,2)
    by (simp add: validateInputs_def check_custom_file_def no_path bind_def ret_def probe c
        setResult_def)
qed

section \<open>Publication and the whole run\<close>

lemma publishArtifacts_result:
  "publishArtifacts w i s = (c, t) \<Longrightarrow> c = Normal () \<and> results t = results s \<and> cwd t = cwd s"
  unfolding publishArtifacts_def
  by (auto simp: sym_prims Let_def split: option.splits)

lemma run_cases:
  assumes "run w i s = (c, t)"
  shows "c = Normal () \<and>
    ((\<exists>e s1. validateInputs w i
         (s\<lparr>console := console s @ [(Log, [lit ''Starting Doxygen documentation generation task...''])]\<rparr>)
           = (Throw e, s1) \<and>
        results t = results s1 @ [(Failed, lit ''Task failed: '' @ toString e)]) \<or>
     (\<exists>s1 e s2. validateInputs w i
         (s\<lparr>console := console s @ [(Log, [lit ''Starting Doxygen documentation generation task...''])]\<rparr>)
           = (Normal (), s1) \<and>
        generateDocumentation w i s1 = (Throw e, s2) \<and>
        results t = results s2 @ [(Failed, lit ''Task failed: '' @ toString e)]) \<or>
     (\<exists>s1 s2. validateInputs w i
         (s\<lparr>console := console s @ [(Log, [lit ''Starting Doxygen documentation generation task...''])]\<rparr>)
           = (Normal (), s1) \<and>
        generateDocumentation w i s1 = (Normal (), s2) \<and>
        results t = results s2 @ [(Succeeded, lit ''Documentation generated successfully'')]))"
  using assms unfolding run_def
  by (auto simp: exec_iffs dest!: publishArtifacts_result)

section \<open>Evaluation in the concrete environments\<close>

lemmas task_defs = run_def validateInputs_def check_custom_file_def checkDoxygenInstallation_def
  generateDocumentation_def resolve_config_def publishArtifacts_def custom_path_def truthy_def

lemma test_world_simps:
  "exec_outcome test_world = (\<lambda>s cmd. ExitZero (lit ''doxygen 1.9.1'') [])"
  "pathExists_outcome test_world = (\<lambda>s p. Inr True)"
  "ensureDir_outcome test_world = (\<lambda>s p. None)"
  "readFile_outcome test_world =
     (\<lambda>s p. Inr (lit ''# Sample Doxyfile content\<newline>OUTPUT_DIRECTORY = /old/path''))"
  "writeFile_outcome test_world = (\<lambda>s p text. None)"
  "remove_outcome test_world = (\<lambda>s p. None)"
  "chdir_outcome test_world = (\<lambda>s d. None)"
  "uploadArtifact_outcome test_world = (\<lambda>s c p n. None)"
  "loc test_world = (\<lambda>key args. key @ lit '': '' @ join_with (lit '', '') args)"
  "path_resolve test_world = (\<lambda>c segments. last (c # segments))"
  "path_join test_world = join_with (lit ''/'')"
  by (simp_all add: test_world_def)

lemma test_inputs_simps:
  "sourceDirectory test_inputs = lit ''/test/source''"
  "outputDirectory test_inputs = lit ''/test/output''"
  "projectName test_inputs = lit ''Test Project''"
  "projectVersion test_inputs = Some (lit ''1.0.0'')"
  "sourceFilePattern test_inputs = lit ''*.cpp *.h''"
  "useCustomDoxyFile test_inputs = False"
  "customDoxyFilePath test_inputs = Some (lit ''/test/custom/doxyfile'')"
  by (simp_all add: test_inputs_def)

lemma missing_path_inputs_simps:
  "sourceDirectory missing_path_inputs = lit ''/test/source''"
  "outputDirectory missing_path_inputs = lit ''/test/output''"
  "projectName missing_path_inputs = lit ''Test Project''"
  "projectVersion missing_path_inputs = Some (lit ''1.0.0'')"
  "sourceFilePattern missing_path_inputs = lit ''*.cpp *.h''"
  "useCustomDoxyFile missing_path_inputs = True"
  "customDoxyFilePath missing_path_inputs = None"
  by (simp_all add: missing_path_inputs_def test_inputs_def)

lemma failing_generator_simps:
  "exec_outcome failing_generator = (\<lambda>s cmd.
       if cmd = lit ''doxygen --version'' then ExitZero (lit ''1.9.1'') []
       else ExitNonZero (Exn (lit ''Error: Doxygen failed'')))"
  "pathExists_outcome failing_generator = pathExists_outcome test_world"
  "ensureDir_outcome failing_generator = ensureDir_outcome test_world"
  "readFile_outcome failing_generator = readFile_outcome test_world"
  "writeFile_outcome failing_generator = writeFile_outcome test_world"
  "remove_outcome failing_generator = remove_outcome test_world"
  "chdir_outcome failing_generator = chdir_outcome test_world"
  "uploadArtifact_outcome failing_generator = uploadArtifact_outcome test_world"
  "loc failing_generator = loc test_world"
  "path_resolve failing_generator = path_resolve test_world"
  "path_join failing_generator = path_join test_world"
  by (simp_all add: failing_generator_def)

lemma no_generator_simps:
  "exec_outcome no_generator = (\<lambda>s cmd. SpawnError (Exn (lit ''Error: Command not found'')))"
  "pathExists_outcome no_generator = pathExists_outcome test_world"
  "ensureDir_outcome no_generator = ensureDir_outcome test_world"
  "readFile_outcome no_generator = readFile_outcome test_world"
  "writeFile_outcome no_generator = writeFile_outcome test_world"
  "remove_outcome no_generator = remove_outcome test_world"
  "chdir_outcome no_generator = chdir_outcome test_world"
  "uploadArtifact_outcome no_generator = uploadArtifact_outcome test_world"
  "loc no_generator = loc test_world"
  "path_resolve no_generator = path_resolve test_world"
  "path_join no_generator = path_join test_world"
  by (simp_all add: no_generator_def)

lemma rejecting_host_simps:
  "exec_outcome rejecting_host = exec_outcome test_world"
  "pathExists_outcome rejecting_host = pathExists_outcome test_world"
  "ensureDir_outcome rejecting_host = ensureDir_outcome test_world"
  "readFile_outcome rejecting_host = readFile_outcome test_world"
  "writeFile_outcome rejecting_host = writeFile_outcome test_world"
  "remove_outcome rejecting_host = remove_outcome test_world"
  "chdir_outcome rejecting_host = chdir_outcome test_world"
  "uploadArtifact_outcome rejecting_host = (\<lambda>s c p n. Some (Exn (lit ''Error: Upload failed'')))"
  "loc rejecting_host = loc test_world"
  "path_resolve rejecting_host = path_resolve test_world"
  "path_join rejecting_host = path_join test_world"
  by (simp_all add: rejecting_host_def)

lemma unwritable_output_simps:
  "exec_outcome unwritable_output = exec_outcome test_world"
  "pathExists_outcome unwritable_output = pathExists_outcome test_world"
  "ensureDir_outcome unwritable_output =
     (\<lambda>s p. Some (Exn (lit ''Error: EACCES: permission denied'')))"
  "readFile_outcome unwritable_output = readFile_outcome test_world"
  "writeFile_outcome unwritable_output = writeFile_outcome test_world"
  "remove_outcome unwritable_output = remove_outcome test_world"
  "chdir_outcome unwritable_output = chdir_outcome test_world"
  "uploadArtifact_outcome unwritable_output = uploadArtifact_outcome test_world"
  "loc unwritable_output = loc test_world"
  "path_resolve unwritable_output = path_resolve test_world"
  "path_join unwritable_output = path_join test_world"
  by (simp_all add: unwritable_output_def)

lemmas world_simps = test_world_simps test_inputs_simps missing_path_inputs_simps
  failing_generator_simps no_generator_simps rejecting_host_simps unwritable_output_simps
  start_def join_with_def

lemmas eval_simps = task_defs prims world_simps Let_def lit_Nil_iff lit_eq_iff lit_append
  lit_append2

lemmas regex_simps = patch_output_directory_def string_replace_def output_directory_re_def
  isSpace_def isDot_def isWhiteSpace_def isLineTerminator_def at_line_start_def at_line_end_def
  lit_def

section \<open>The claims\<close>

text \<open>
  C1 (not met by the code). The claim: when \<open>validateInputs\<close> reports a validation
  failure, \<open>run\<close> halts and \<open>generateDocumentation\<close> is not executed. In the code
  \<open>validateInputs\<close> reports the failure and returns normally, and \<open>run\<close> does not look
  at what it reported. With the custom configuration selected and no path given, in an
  environment where every call succeeds, \<open>run\<close> reports the missing path, then changes
  the directory, writes the temporary configuration, runs the generator, publishes the
  artifact and reports success.
\<close>

theorem run_proceeds_after_validation_failure:
  \<open>useCustomDoxyFile missing_path_inputs \<and> customDoxyFilePath missing_path_inputs = None \<and>
   results (snd (run test_world missing_path_inputs start)) =
     [(Failed, lit ''Custom Doxyfile path is required when using custom configuration file option''),
      (Succeeded, lit ''Documentation generated successfully'')] \<and>
   effects (snd (run test_world missing_path_inputs start)) =
     [Exec (lit ''doxygen --version''),
      Chdir (lit ''/test/source''),
      WriteFile (lit ''/test/source/Doxyfile.tmp'') (generateAutoDoxyfile missing_path_inputs),
      Exec (lit ''doxygen "/test/source/Doxyfile.tmp"''),
      Remove (lit ''/test/source/Doxyfile.tmp''),
      Chdir (lit ''/original''),
      UploadArtifact (lit ''documentation'') (lit ''/test/output'') (lit ''documentation'')]\<close>
  by (simp add: eval_simps split del: if_split)

text \<open>
  C2 (not met by the code). The claim: when the generator run fails after the directory
  was changed and the temporary file written, the failure handler deletes the file and
  restores the working directory before it signals the failure. The handler of
  \<open>generateDocumentation\<close> only reports and rethrows: started in \<open>/original\<close> with a
  failing generator, the function throws with the working directory still the source
  directory, and no \<open>Remove\<close> and no second \<open>Chdir\<close> among its calls.
\<close>

theorem generateDocumentation_failure_skips_cleanup:
  \<open>cwd start = lit ''/original'' \<and>
   fst (generateDocumentation failing_generator test_inputs start) =
     Throw (Exn (lit ''Error: Doxygen failed'')) \<and>
   cwd (snd (generateDocumentation failing_generator test_inputs start)) = lit ''/test/source'' \<and>
   effects (snd (generateDocumentation failing_generator test_inputs start)) =
     [Chdir (lit ''/test/source''),
      WriteFile (lit ''/test/source/Doxyfile.tmp'') (generateAutoDoxyfile test_inputs),
      Exec (lit ''doxygen "/test/source/Doxyfile.tmp"'')] \<and>
   results (snd (generateDocumentation failing_generator test_inputs start)) =
     [(Failed, lit ''Failed to generate documentation: Error: Doxygen failed'')]\<close>
  by (simp add: eval_simps split del: if_split)

text \<open>
  C3, counterexample. The claim: every run makes exactly one \<open>tl.setResult\<close> call. A
  run whose generator fails makes two: \<open>generateDocumentation\<close> reports the failure and
  rethrows, and the handler of \<open>run\<close> reports it again.
\<close>

theorem run_reports_generation_failure_twice:
  \<open>results (snd (run failing_generator test_inputs start)) =
     [(Failed, lit ''Failed to generate documentation: Error: Doxygen failed''),
      (Failed, lit ''Task failed: Error: Doxygen failed'')]\<close>
  by (simp add: eval_simps split del: if_split)

text \<open>
  C3, as amended. For every run in which \<open>validateInputs\<close> reports no failure, the
  \<open>tl.setResult\<close> calls of the run are determined by how validation and generation
  end, and are never none: when both return, exactly the one \<open>Succeeded\<close> call with the
  fixed message; when \<open>generateDocumentation\<close> fails with an error, exactly the two
  \<open>Failed\<close> calls \<open>Failed to generate documentation: <error>\<close> and
  \<open>Task failed: <error>\<close>, in this order; when \<open>validateInputs\<close> itself throws an
  error, exactly the one \<open>Failed\<close> call \<open>Task failed: <error>\<close>. Here \<open>c1\<close> and
  \<open>s1\<close> are the outcome and the state of validation in the run, and \<open>c2\<close> the outcome
  of generation from \<open>s1\<close>.
\<close>

theorem run_host_result_calls:
  assumes "validateInputs w i
      (snd (console_log [lit ''Starting Doxygen documentation generation task...''] s)) = (c1, s1)"
    and "results s1 = results s"
    and "generateDocumentation w i s1 = (c2, s2)"
  shows \<open>results (snd (run w i s)) = results s @
     (case c1 of
        Throw e \<Rightarrow> [(Failed, lit ''Task failed: '' @ toString e)]
      | Normal _ \<Rightarrow>
          (case c2 of
             Normal _ \<Rightarrow> [(Succeeded, lit ''Documentation generated successfully'')]
           | Throw e \<Rightarrow>
               [(Failed, lit ''Failed to generate documentation: '' @ toString e),
                (Failed, lit ''Task failed: '' @ toString e)]))\<close>
proof -
  have s0: "snd (console_log [lit ''Starting Doxygen documentation generation task...''] s) =
      s\<lparr>console := console s @
        [(Log, [lit ''Starting Doxygen documentation generation task...''])]\<rparr>"
    by (simp add: console_log_def)
  obtain c t where r: "run w i s = (c, t)"
    by (cases "run w i s")
  from run_cases [OF r] assms(1) [unfolded s0] assms(3)
  have rc: "(\<exists>e. c1 = Throw e \<and> results t = results s1 @ [(Failed, lit ''Task failed: '' @ toString e)]) \<or>
      (\<exists>e. c1 = Normal () \<and> c2 = Throw e \<and>
         results t = results s2 @ [(Failed, lit ''Task failed: '' @ toString e)]) \<or>
      (c1 = Normal () \<and> c2 = Normal () \<and>
         results t = results s2 @ [(Succeeded, lit ''Documentation generated successfully'')])"
    by auto
  note gr = generateDocumentation_results [OF assms(3)]
  show ?thesis
    using rc gr assms(2) by (auto simp: r)
qed

text \<open>
  Witness for C3, one run for each case: every call succeeds; the generator run fails;
  \<open>validateInputs\<close> throws because the output directory cannot be created.
\<close>

theorem run_host_result_calls_witness:
  \<open>results (snd (validateInputs test_world test_inputs
      (snd (console_log [lit ''Starting Doxygen documentation generation task...''] start)))) =
     results start \<and>
   results (snd (run test_world test_inputs start)) =
     [(Succeeded, lit ''Documentation generated successfully'')] \<and>
   results (snd (validateInputs failing_generator test_inputs
      (snd (console_log [lit ''Starting Doxygen documentation generation task...''] start)))) =
     results start \<and>
   results (snd (run failing_generator test_inputs start)) =
     [(Failed, lit ''Failed to generate documentation: Error: Doxygen failed''),
      (Failed, lit ''Task failed: Error: Doxygen failed'')] \<and>
   results (snd (validateInputs unwritable_output test_inputs
      (snd (console_log [lit ''Starting Doxygen documentation generation task...''] start)))) =
     results start \<and>
   fst (validateInputs unwritable_output test_inputs
      (snd (console_log [lit ''Starting Doxygen documentation generation task...''] start))) =
     Throw (Exn (lit ''Error: EACCES: permission denied'')) \<and>
   results (snd (run unwritable_output test_inputs start)) =
     [(Failed, lit ''Task failed: Error: EACCES: permission denied'')]\<close>
proof -
  let ?s0 = "snd (console_log [lit ''Starting Doxygen documentation generation task...''] start)"
  have ok: "results (snd (validateInputs test_world test_inputs ?s0)) = results start"
    by (simp add: eval_simps split del: if_split)
  have fails: "results (snd (validateInputs failing_generator test_inputs ?s0)) = results start"
    by (simp add: eval_simps split del: if_split)
  have throws: "results (snd (validateInputs unwritable_output test_inputs ?s0)) = results start"
    "fst (validateInputs unwritable_output test_inputs ?s0) =
       Throw (Exn (lit ''Error: EACCES: permission denied''))"
    by (simp_all add: eval_simps split del: if_split)
  note a = run_host_result_calls [OF prod.collapse [symmetric] ok prod.collapse [symmetric]]
  note b = run_host_result_calls [OF prod.collapse [symmetric] fails prod.collapse [symmetric]]
  note c = run_host_result_calls [OF prod.collapse [symmetric] throws(1) prod.collapse [symmetric]]
  show ?thesis
    using a b c ok fails throws
    by (simp add: eval_simps split del: if_split)
qed

text \<open>
  C4, counterexample. The claim: with the custom configuration selected and no path
  given, \<open>validateInputs\<close> reports the missing path whether or not the generator is
  available. The generator is probed first: when the probe fails, \<open>validateInputs\<close>
  reports \<open>DoxygenNotFound\<close> and returns before it looks at the path.
\<close>

theorem validateInputs_probe_failure_masks_missing_path:
  \<open>useCustomDoxyFile missing_path_inputs \<and> customDoxyFilePath missing_path_inputs = None \<and>
   results (snd (validateInputs no_generator missing_path_inputs start)) =
     [(Failed, lit ''DoxygenNotFound: '')]\<close>
  by (simp add: eval_simps split del: if_split)

text \<open>
  C4, as amended. With the custom configuration selected and no path given (unset or
  empty), \<open>validateInputs\<close> returns normally; it reports the missing path when the
  generator probe succeeds, and \<open>DoxygenNotFound\<close> when the probe fails.
\<close>

theorem validateInputs_missing_custom_path:
  assumes "useCustomDoxyFile i" and "\<not> truthy (customDoxyFilePath i)"
  shows \<open>fst (validateInputs w i s) = Normal () \<and>
    (fst (checkDoxygenInstallation w s) = Normal True \<longrightarrow>
       results (snd (validateInputs w i s)) =
         results s @ [(Failed,
           lit ''Custom Doxyfile path is required when using custom configuration file option'')]) \<and>
    (fst (checkDoxygenInstallation w s) = Normal False \<longrightarrow>
       results (snd (validateInputs w i s)) =
         results s @ [(Failed, loc w (lit ''DoxygenNotFound'') [])])\<close>
proof -
  obtain c t where probe: "checkDoxygenInstallation w s = (c, t)"
    by (cases "checkDoxygenInstallation w s")
  from checkDoxygenInstallation_result [OF probe]
  have "c = Normal True \<or> c = Normal False"
    by (auto split: proc_outcome.splits)
  then have "fst (checkDoxygenInstallation w s) = Normal True \<or>
      fst (checkDoxygenInstallation w s) = Normal False"
    by (simp add: probe)
  then show ?thesis
    using validateInputs_missing_path [OF assms, of w s] validateInputs_no_generator [of w s i]
    by auto
qed

text \<open>Witness for C4: both cases, with and without the generator.\<close>

theorem validateInputs_missing_custom_path_witness:
  \<open>useCustomDoxyFile missing_path_inputs \<and> \<not> truthy (customDoxyFilePath missing_path_inputs) \<and>
   fst (checkDoxygenInstallation test_world start) = Normal True \<and>
   results (snd (validateInputs test_world missing_path_inputs start)) =
     [(Failed, lit ''Custom Doxyfile path is required when using custom configuration file option'')] \<and>
   fst (checkDoxygenInstallation no_generator start) = Normal False \<and>
   results (snd (validateInputs no_generator missing_path_inputs start)) =
     [(Failed, lit ''DoxygenNotFound: '')]\<close>
  using validateInputs_missing_custom_path [of missing_path_inputs test_world start]
    validateInputs_missing_custom_path [of missing_path_inputs no_generator start]
  by (simp add: eval_simps split del: if_split)

text \<open>
  The patch on the file of the repository's test
  (\<open>should generate documentation using custom config\<close>).
\<close>

lemma patch_output_directory_repository_test:
  \<open>patch_output_directory (lit ''/test/output'')
       (lit ''# Sample Doxyfile content\<newline>OUTPUT_DIRECTORY = /old/path'') =
     lit ''# Sample Doxyfile content\<newline>OUTPUT_DIRECTORY = /test/output''\<close>
  by (simp add: regex_simps)

text \<open>
  C5 (not met by the code). The claim: the patch replaces the first
  \<open>OUTPUT_DIRECTORY = ...\<close> line with \<open>OUTPUT_DIRECTORY = <outputDirectory>\<close>, leaves
  every other line unchanged, and is idempotent. The output directory is spliced into a
  replacement string, whose \<open>$\<close> patterns \<open>replace\<close> expands: with the output directory
  \<open>/o/$&\<close> the new line holds the old line in place of \<open>$&\<close>, and a second patch
  changes the text again. And \<open>\s*\<close> runs over line ends: a line \<open>OUTPUT_DIRECTORY\<close>
  followed by a line that starts with \<open>=\<close> is replaced together with that line.
\<close>

theorem patch_output_directory_expands_dollar_patterns:
  \<open>patch_output_directory (lit ''/o/$&'') (lit ''INPUT = src\<newline>OUTPUT_DIRECTORY = /old'') =
     lit ''INPUT = src\<newline>OUTPUT_DIRECTORY = /o/OUTPUT_DIRECTORY = /old'' \<and>
   patch_output_directory (lit ''/o/$&'')
       (patch_output_directory (lit ''/o/$&'') (lit ''INPUT = src\<newline>OUTPUT_DIRECTORY = /old'')) =
     lit ''INPUT = src\<newline>OUTPUT_DIRECTORY = /o/OUTPUT_DIRECTORY = /o/OUTPUT_DIRECTORY = /old'' \<and>
   patch_output_directory (lit ''/out'') (lit ''OUTPUT_DIRECTORY\<newline>= /old\<newline>INPUT = src'') =
     lit ''OUTPUT_DIRECTORY = /out\<newline>INPUT = src''\<close>
  by (simp add: regex_simps)

text \<open>
  The host results of a run do not depend on the environment's answers to the upload:
  validation and generation never ask for them.
\<close>

lemma upload_independent:
  "execAsync (w\<lparr>uploadArtifact_outcome := u\<rparr>) = execAsync w"
  "fs_pathExists (w\<lparr>uploadArtifact_outcome := u\<rparr>) = fs_pathExists w"
  "fs_ensureDir (w\<lparr>uploadArtifact_outcome := u\<rparr>) = fs_ensureDir w"
  "fs_readFile (w\<lparr>uploadArtifact_outcome := u\<rparr>) = fs_readFile w"
  "fs_writeFile (w\<lparr>uploadArtifact_outcome := u\<rparr>) = fs_writeFile w"
  "fs_remove (w\<lparr>uploadArtifact_outcome := u\<rparr>) = fs_remove w"
  "process_chdir (w\<lparr>uploadArtifact_outcome := u\<rparr>) = process_chdir w"
  "resolve (w\<lparr>uploadArtifact_outcome := u\<rparr>) = resolve w"
  "loc (w\<lparr>uploadArtifact_outcome := u\<rparr>) = loc w"
  "path_join (w\<lparr>uploadArtifact_outcome := u\<rparr>) = path_join w"
  by (simp_all add: fun_eq_iff execAsync_def fs_pathExists_def fs_ensureDir_def fs_readFile_def
      fs_writeFile_def fs_remove_def process_chdir_def resolve_def)

lemma validateInputs_upload_independent:
  "validateInputs (w\<lparr>uploadArtifact_outcome := u\<rparr>) i = validateInputs w i"
  unfolding validateInputs_def check_custom_file_def checkDoxygenInstallation_def
    upload_independent
  by (rule refl)

lemma generateDocumentation_upload_independent:
  "generateDocumentation (w\<lparr>uploadArtifact_outcome := u\<rparr>) i = generateDocumentation w i"
  unfolding generateDocumentation_def resolve_config_def upload_independent
  by (rule refl)

text \<open>
  C7. \<open>publishArtifacts\<close> never throws and makes no \<open>tl.setResult\<close> call; when the
  host's upload throws, it logs the warning \<open>Failed to publish artifacts: <error>\<close>.
  \<open>run\<close> never throws to its caller, and its host results are those of the same run with
  an upload that succeeds: a failed publication produces no \<open>Failed\<close> result.
\<close>

theorem publishArtifacts_absorbs_upload_failure:
  \<open>fst (publishArtifacts w i s) = Normal () \<and>
   results (snd (publishArtifacts w i s)) = results s \<and>
   (\<forall>e. uploadArtifact_outcome w
          (snd (console_log [loc w (lit ''PublishingArtifacts'') [lit ''documentation'']] s))
          (lit ''documentation'') (outputDirectory i) (lit ''documentation'') = Some e \<longrightarrow>
        console (snd (publishArtifacts w i s)) =
          console s @ [(Log, [loc w (lit ''PublishingArtifacts'') [lit ''documentation'']]),
                       (Warn, [lit ''Failed to publish artifacts: '' @ toString e])]) \<and>
   fst (run w i s) = Normal () \<and>
   results (snd (run w i s)) =
     results (snd (run (w\<lparr>uploadArtifact_outcome := (\<lambda>s c p n. None)\<rparr>) i s))\<close>
proof -
  let ?w' = "w\<lparr>uploadArtifact_outcome := (\<lambda>s c p n. None)\<rparr>"
  have publish: "fst (publishArtifacts w i s) = Normal () \<and>
      results (snd (publishArtifacts w i s)) = results s"
    using publishArtifacts_result [of w i s] by (cases "publishArtifacts w i s") simp
  have warning: "console (snd (publishArtifacts w i s)) =
      console s @ [(Log, [loc w (lit ''PublishingArtifacts'') [lit ''documentation'']]),
                   (Warn, [lit ''Failed to publish artifacts: '' @ toString e])]"
    if "uploadArtifact_outcome w
          (snd (console_log [loc w (lit ''PublishingArtifacts'') [lit ''documentation'']] s))
          (lit ''documentation'') (outputDirectory i) (lit ''documentation'') = Some e" for e
    using that by (simp add: publishArtifacts_def sym_prims Let_def)
  obtain c t where r: "run w i s = (c, t)"
    by (cases "run w i s")
  obtain c' t' where r': "run ?w' i s = (c', t')"
    by (cases "run ?w' i s")
  have "results t = results t'"
    using run_cases [OF r] run_cases [OF r']
    by (auto simp: validateInputs_upload_independent generateDocumentation_upload_independent)
  moreover have "c = Normal ()"
    using run_cases [OF r] by simp
  ultimately show ?thesis
    using publish warning by (simp add: r r')
qed

text \<open>
  Witness for C7: the host rejects the upload; the warning is logged and the run still
  ends with its one \<open>Succeeded\<close> call.
\<close>

theorem publishArtifacts_absorbs_upload_failure_witness:
  \<open>uploadArtifact_outcome rejecting_host
      (snd (console_log [loc rejecting_host (lit ''PublishingArtifacts'') [lit ''documentation'']] start))
      (lit ''documentation'') (outputDirectory test_inputs) (lit ''documentation'') =
     Some (Exn (lit ''Error: Upload failed'')) \<and>
   fst (publishArtifacts rejecting_host test_inputs start) = Normal () \<and>
   results (snd (publishArtifacts rejecting_host test_inputs start)) = [] \<and>
   console (snd (publishArtifacts rejecting_host test_inputs start)) =
     [(Log, [lit ''PublishingArtifacts: documentation'']),
      (Warn, [lit ''Failed to publish artifacts: Error: Upload failed''])] \<and>
   fst (run rejecting_host test_inputs start) = Normal () \<and>
   results (snd (run rejecting_host test_inputs start)) =
     [(Succeeded, lit ''Documentation generated successfully'')]\<close>
  using publishArtifacts_absorbs_upload_failure [of rejecting_host test_inputs start]
  by (simp add: eval_simps split del: if_split)

text \<open>
  C8. \<open>checkDoxygenInstallation\<close> never throws: it returns \<open>true\<close> when the version
  query exits with zero and \<open>false\<close> when it exits with another code or cannot be
  spawned. On \<open>false\<close>, \<open>validateInputs\<close> reports \<open>DoxygenNotFound\<close> as a \<open>Failed\<close>
  result and returns normally, having made no other call than the probe.
\<close>

theorem checkDoxygenInstallation_never_throws:
  \<open>fst (checkDoxygenInstallation w s) =
     Normal (case exec_outcome w s (lit ''doxygen --version'') of
               ExitZero out err \<Rightarrow> True | ExitNonZero e \<Rightarrow> False | SpawnError e \<Rightarrow> False) \<and>
   (fst (checkDoxygenInstallation w s) = Normal False \<longrightarrow>
      fst (validateInputs w i s) = Normal () \<and>
      results (snd (validateInputs w i s)) =
        results s @ [(Failed, loc w (lit ''DoxygenNotFound'') [])] \<and>
      effects (snd (validateInputs w i s)) = effects s @ [Exec (lit ''doxygen --version'')])\<close>
proof -
  obtain c t where probe: "checkDoxygenInstallation w s = (c, t)"
    by (cases "checkDoxygenInstallation w s")
  from checkDoxygenInstallation_result [OF probe]
  have "fst (checkDoxygenInstallation w s) =
     Normal (case exec_outcome w s (lit ''doxygen --version'') of
               ExitZero out err \<Rightarrow> True | ExitNonZero e \<Rightarrow> False | SpawnError e \<Rightarrow> False)"
    by (simp add: probe)
  then show ?thesis
    using validateInputs_no_generator [of w s i] by blast
qed

text \<open>Witness for C8: the generator cannot be spawned.\<close>

theorem checkDoxygenInstallation_never_throws_witness:
  \<open>fst (checkDoxygenInstallation no_generator start) = Normal False \<and>
   fst (validateInputs no_generator test_inputs start) = Normal () \<and>
   results (snd (validateInputs no_generator test_inputs start)) =
     [(Failed, lit ''DoxygenNotFound: '')] \<and>
   effects (snd (validateInputs no_generator test_inputs start)) =
     [Exec (lit ''doxygen --version'')]\<close>
  using checkDoxygenInstallation_never_throws [of no_generator start test_inputs]
  by (simp add: eval_simps split del: if_split)

text \<open>
  C9. When \<open>generateDocumentation\<close> returns (the generator run and every step around it
  succeeded), the working directory is the one it was called in, whatever the source
  directory is.
\<close>

theorem generateDocumentation_restores_cwd:
  assumes "fst (generateDocumentation w i s) = Normal ()"
  shows "cwd (snd (generateDocumentation w i s)) = cwd s"
  using assms generateDocumentation_cwd [of w i s "snd (generateDocumentation w i s)"]
  by (cases "generateDocumentation w i s") simp

text \<open>
  Witness for C9: called in \<open>/original\<close> with the source directory \<open>/test/source\<close>.
\<close>

theorem generateDocumentation_restores_cwd_witness:
  \<open>fst (generateDocumentation test_world test_inputs start) = Normal () \<and>
   sourceDirectory test_inputs = lit ''/test/source'' \<and>
   cwd start = lit ''/original'' \<and>
   cwd (snd (generateDocumentation test_world test_inputs start)) = lit ''/original''\<close>
  using generateDocumentation_restores_cwd [of test_world test_inputs start]
  by (simp add: eval_simps split del: if_split)



end
